theory Spec2Isabelle
  imports Complex_Main "HOL-Library.Sublist"
begin

section \<open>The RAG knowledge base tool server\<close>

text \<open>
  A shallow embedding of \<^verbatim>\<open>rag_knowledge_base_mcp_server.py\<close>: the three tool
  functions \<^verbatim>\<open>search_knowledge_base\<close>, \<^verbatim>\<open>get_document\<close> and
  \<^verbatim>\<open>list_collections\<close>.

  What the Python does beyond computing a value is explicit here:
  \<^item> an exception is a value of type \<open>exn\<close>, and a computation that may raise returns
    \<open>exn + 'a\<close> (\<open>Inl\<close> the exception);
  \<^item> the network and the clock are a trace of events: every request handed to the HTTP
    client and every completed \<^verbatim>\<open>asyncio.sleep\<close> is appended to it;
  \<^item> the remote endpoint (with the HTTP client library in front of it) is a function
    from the number of requests already sent in this invocation and the request to what
    comes back: a response, a timeout or another transport error;
  \<^item> the module's globals that the functions read are a record: the two configuration
    strings and whether the module body ran as \<^verbatim>\<open>__main__\<close>.
  Log lines have no effect on the result and are left out, except that the expressions
  their f-strings evaluate (\<^verbatim>\<open>len(documents)\<close>, \<^verbatim>\<open>len(collections)\<close>) can raise
  and are kept.
\<close>

subsection \<open>JSON values and the Python operations on them\<close>

text \<open>
  A parsed JSON value as \<^verbatim>\<open>response.json()\<close> returns it, and the dictionaries the
  functions hand to \<^verbatim>\<open>json.dumps\<close>. A \<open>JObject\<close> holds the items of a Python
  \<^verbatim>\<open>dict\<close> in insertion order, so its keys are distinct. Python's unbounded integers
  are \<open>int\<close>; a Python float is the real number it denotes (NaN and the infinities
  are outside the model). A string is a list of characters, each standing for a code
  point below 256; about text beyond that range the model says nothing.
\<close>

datatype json =
    JNull
  | JBool bool
  | JInt int
  | JFloat real
  | JString string
  | JArray "json list"
  | JObject "(string \<times> json) list"

datatype exn =
    TimeoutException string
  | HTTPStatusError int string
  | RequestError string
  | JSONDecodeError string
  | NameError string
  | UnboundLocalError string
  | AttributeError string
  | TypeError string

text \<open>
  \<open>TimeoutException\<close> stands for \<^verbatim>\<open>httpx.TimeoutException\<close> and its subclasses,
  \<open>HTTPStatusError status message\<close> for \<^verbatim>\<open>httpx.HTTPStatusError\<close> with
  \<^verbatim>\<open>e.response.status_code\<close>, and \<open>RequestError\<close> for every other error the client
  raises while sending. All of them are subclasses of Python's \<^verbatim>\<open>Exception\<close>, so
  \<^verbatim>\<open>except Exception\<close> catches each. \<open>py_str\<close> is \<^verbatim>\<open>str(e)\<close>.
\<close>

fun py_str :: "exn \<Rightarrow> string" where
  "py_str (TimeoutException m) = m"
| "py_str (HTTPStatusError status m) = m"
| "py_str (RequestError m) = m"
| "py_str (JSONDecodeError m) = m"
| "py_str (NameError m) = m"
| "py_str (UnboundLocalError m) = m"
| "py_str (AttributeError m) = m"
| "py_str (TypeError m) = m"

definition squote :: "string \<Rightarrow> string" where
  "squote s = CHR 0x27 # s @ [CHR 0x27]"

fun type_name :: "json \<Rightarrow> string" where
  "type_name JNull = ''NoneType''"
| "type_name (JBool b) = ''bool''"
| "type_name (JInt i) = ''int''"
| "type_name (JFloat x) = ''float''"
| "type_name (JString s) = ''str''"
| "type_name (JArray xs) = ''list''"
| "type_name (JObject kvs) = ''dict''"

text \<open>\<^verbatim>\<open>obj.get(key, default)\<close>: only a dict has the method.\<close>

definition dict_get :: "(string \<times> json) list \<Rightarrow> string \<Rightarrow> json \<Rightarrow> json" where
  "dict_get kvs k d = (case map_of kvs k of Some v \<Rightarrow> v | None \<Rightarrow> d)"

fun py_get :: "json \<Rightarrow> string \<Rightarrow> json \<Rightarrow> exn + json" where
  "py_get (JObject kvs) k d = Inr (dict_get kvs k d)"
| "py_get j k d =
     Inl (AttributeError (squote (type_name j) @ '' object has no attribute '' @ squote ''get''))"

text \<open>\<^verbatim>\<open>len(obj)\<close>: strings, lists and dicts have a length, the other values raise.\<close>

fun py_len :: "json \<Rightarrow> exn + nat" where
  "py_len (JString s) = Inr (length s)"
| "py_len (JArray xs) = Inr (length xs)"
| "py_len (JObject kvs) = Inr (length kvs)"
| "py_len j = Inl (TypeError (''object of type '' @ squote (type_name j) @ '' has no len()''))"

text \<open>
  \<^verbatim>\<open>max(a, b)\<close> and \<^verbatim>\<open>min(a, b)\<close> of two arguments: Python keeps the first argument
  unless the second is strictly greater (strictly less).
\<close>

definition py_max :: "'a::linorder \<Rightarrow> 'a \<Rightarrow> 'a" where
  "py_max a b = (if a < b then b else a)"

definition py_min :: "'a::linorder \<Rightarrow> 'a \<Rightarrow> 'a" where
  "py_min a b = (if b < a then b else a)"

text \<open>
  \<^verbatim>\<open>str.isspace\<close> on one character, for the code points below 256: tab to carriage
  return, the four separators U+001C to U+001F, the space, U+0085 and U+00A0.
  \<^verbatim>\<open>s.strip()\<close> drops such characters at both ends.
\<close>

definition py_isspace :: "char \<Rightarrow> bool" where
  "py_isspace c =
     (let n = (of_char c :: nat)
      in (9 \<le> n \<and> n \<le> 13) \<or> (28 \<le> n \<and> n \<le> 32) \<or> n = 133 \<or> n = 160)"

definition py_strip :: "string \<Rightarrow> string" where
  "py_strip s = rev (dropWhile py_isspace (rev (dropWhile py_isspace s)))"

text \<open>The guard \<^verbatim>\<open>not s or not s.strip()\<close> of both validating functions.\<close>

definition blank :: "string \<Rightarrow> bool" where
  "blank s = (s = [] \<or> py_strip s = [])"

text \<open>Decimal text of an integer, as \<^verbatim>\<open>str.format\<close> renders a status code.\<close>

fun str_nat :: "nat \<Rightarrow> string" where
  "str_nat n =
     (if n < 10 then [''0123456789'' ! n]
      else str_nat (n div 10) @ [''0123456789'' ! (n mod 10)])"

declare str_nat.simps [simp del]

definition str_int :: "int \<Rightarrow> string" where
  "str_int i = (if i < 0 then CHR ''-'' # str_nat (nat (- i)) else str_nat (nat i))"

subsection \<open>Requests, responses and the endpoint\<close>

datatype http_verb = GET | POST

record http_request =
  verb :: http_verb
  url :: string
  headers :: "(string \<times> string) list"
  params :: "(string \<times> string) list"
  json_body :: "json option"
  connect_timeout :: int
  read_timeout :: int

text \<open>
  A response as the client library presents it: the status line, the URL the library
  prints for it, the \<^verbatim>\<open>Location\<close> header if there is one, and what
  \<^verbatim>\<open>response.json()\<close> does: \<open>Inr\<close> the parsed body, or \<open>Inl\<close> the message of the
  decoding error it raises.
\<close>

record http_response =
  status_code :: int
  reason_phrase :: string
  response_url :: string
  location :: "string option"
  json_result :: "string + json"

datatype http_outcome =
    Responded http_response
  | TimedOut string
  | Failed string

type_synonym endpoint = "nat \<Rightarrow> http_request \<Rightarrow> http_outcome"

datatype event = Sent http_request | Slept int

text \<open>
  What a trace shows: the requests sent, in order, their number, and the delays slept.
\<close>

fun requests :: "event list \<Rightarrow> http_request list" where
  "requests [] = []"
| "requests (Sent r # tr) = r # requests tr"
| "requests (Slept d # tr) = requests tr"

definition attempts :: "event list \<Rightarrow> nat" where
  "attempts tr = length (requests tr)"

fun delays :: "event list \<Rightarrow> int list" where
  "delays [] = []"
| "delays (Sent r # tr) = delays tr"
| "delays (Slept d # tr) = d # delays tr"

text \<open>
  One \<^verbatim>\<open>await client.post(...)\<close> or \<^verbatim>\<open>await client.get(...)\<close>: the request goes on
  the trace, and the endpoint decides what comes back.
\<close>

definition client_request ::
  "endpoint \<Rightarrow> http_request \<Rightarrow> event list \<Rightarrow> (exn + http_response) \<times> event list" where
  "client_request ep req tr =
     ((case ep (attempts tr) req of
         Responded r \<Rightarrow> Inr r
       | TimedOut m \<Rightarrow> Inl (TimeoutException m)
       | Failed m \<Rightarrow> Inl (RequestError m)),
      tr @ [Sent req])"

text \<open>
  \<^verbatim>\<open>response.raise_for_status()\<close> of the client library: a status from 200 to 299
  passes, every other status raises \<^verbatim>\<open>HTTPStatusError\<close> with the library's message.
  The wording of the message is the library's own; what the properties below use of it
  is that it shows the status code in decimal.
\<close>

definition error_type :: "int \<Rightarrow> string" where
  "error_type status =
     (let status_class = status div 100
      in if status_class = 1 then ''Informational response''
         else if status_class = 3 then ''Redirect response''
         else if status_class = 4 then ''Client error''
         else if status_class = 5 then ''Server error''
         else ''Invalid status code'')"

definition has_redirect_location :: "http_response \<Rightarrow> bool" where
  "has_redirect_location r =
     (status_code r \<in> set [301, 302, 303, 307, 308] \<and> location r \<noteq> None)"

definition status_message :: "http_response \<Rightarrow> string" where
  "status_message r =
     error_type (status_code r) @ '' ''
       @ squote (str_int (status_code r) @ '' '' @ reason_phrase r)
       @ '' for url '' @ squote (response_url r)
       @ (if has_redirect_location r
          then CHR 0x0A # ''Redirect location: '' @ squote (case location r of Some l \<Rightarrow> l | None \<Rightarrow> [])
          else [])
       @ CHR 0x0A # ''For more information check: https://developer.mozilla.org/en-US/docs/Web/HTTP/Status/''
       @ str_int (status_code r)"

definition raise_for_status :: "http_response \<Rightarrow> exn + http_response" where
  "raise_for_status r =
     (if 200 \<le> status_code r \<and> status_code r \<le> 299 then Inr r
      else Inl (HTTPStatusError (status_code r) (status_message r)))"

subsection \<open>The module's globals\<close>

text \<open>
  \<^verbatim>\<open>RAG_API_URL\<close> and \<^verbatim>\<open>RAG_API_KEY\<close> are read from the environment when the module is
  loaded. The module imports \<^verbatim>\<open>asyncio\<close> only inside its
  \<^verbatim>\<open>if __name__ == "__main__":\<close> block, which is module-level code: when the file is
  run as the program (\<^verbatim>\<open>python file.py\<close> or \<^verbatim>\<open>python -m package.module\<close>) the
  import binds the global name before \<^verbatim>\<open>mcp.run\<close> serves any call; when the module is
  imported by other code the block is skipped and the name stays unbound. \<open>is_main\<close>
  records which of the two happened.
\<close>

record module_env =
  RAG_API_URL :: string
  RAG_API_KEY :: string
  is_main :: bool

text \<open>
  \<^verbatim>\<open>await asyncio.sleep(delay)\<close>: looking up the global \<^verbatim>\<open>asyncio\<close> raises
  \<^verbatim>\<open>NameError\<close> when it is unbound, before anything sleeps.
\<close>

definition asyncio_sleep :: "module_env \<Rightarrow> int \<Rightarrow> event list \<Rightarrow> (exn + unit) \<times> event list" where
  "asyncio_sleep env delay tr =
     (if is_main env then (Inr (), tr @ [Slept delay])
      else (Inl (NameError ''name 'asyncio' is not defined''), tr))"

subsection \<open>search_knowledge_base\<close>

definition retry_delays :: "int list" where
  "retry_delays = [1, 2, 4]"

definition search_request :: "module_env \<Rightarrow> string \<Rightarrow> string \<Rightarrow> int \<Rightarrow> real \<Rightarrow> http_request" where
  "search_request env query collection_name top_k score_threshold =
     \<lparr>verb = POST,
      url = RAG_API_URL env @ ''/api/search'',
      headers = [(''Authorization'', ''Bearer '' @ RAG_API_KEY env),
                 (''Content-Type'', ''application/json'')],
      params = [],
      json_body = Some (JObject
        [(''query'', JString query),
         (''collection_name'', JString collection_name),
         (''top_k'', JInt top_k),
         (''score_threshold'', JFloat score_threshold)]),
      connect_timeout = 10,
      read_timeout = 30\<rparr>"

text \<open>
  The loop \<^verbatim>\<open>for attempt, delay in enumerate(retry_delays, 1)\<close> with its inner
  \<^verbatim>\<open>try\<close>. The result is \<open>Inr (Some response)\<close> after \<^verbatim>\<open>break\<close>, \<open>Inr None\<close> when
  the list runs out with \<^verbatim>\<open>response\<close> never bound, and \<open>Inl e\<close> when \<open>e\<close> leaves
  the loop: re-raised by a handler, raised inside a handler (the \<^verbatim>\<open>NameError\<close>), or not
  matched by either \<^verbatim>\<open>except\<close> clause.
\<close>

fun retry_loop ::
  "module_env \<Rightarrow> endpoint \<Rightarrow> http_request \<Rightarrow> (nat \<times> int) list \<Rightarrow> event list
     \<Rightarrow> (exn + http_response option) \<times> event list" where
  "retry_loop env ep req [] tr = (Inr None, tr)"
| "retry_loop env ep req ((attempt, delay) # rest) tr =
     (case client_request ep req tr of (sent, tr1) \<Rightarrow>
       (case (case sent of Inl e \<Rightarrow> Inl e | Inr response \<Rightarrow> raise_for_status response) of
          Inr response \<Rightarrow> (Inr (Some response), tr1)
        | Inl (TimeoutException m) \<Rightarrow>
            (if attempt < length retry_delays then
               (case asyncio_sleep env delay tr1 of
                  (Inl e, tr2) \<Rightarrow> (Inl e, tr2)
                | (Inr u, tr2) \<Rightarrow> retry_loop env ep req rest tr2)
             else (Inl (TimeoutException m), tr1))
        | Inl (HTTPStatusError status m) \<Rightarrow>
            (if status \<ge> 500 \<or> status \<in> set [408, 429] then
               (if attempt < length retry_delays then
                  (case asyncio_sleep env delay tr1 of
                     (Inl e, tr2) \<Rightarrow> (Inl e, tr2)
                   | (Inr u, tr2) \<Rightarrow> retry_loop env ep req rest tr2)
                else (Inl (HTTPStatusError status m), tr1))
             else (Inl (HTTPStatusError status m), tr1))
        | Inl e \<Rightarrow> (Inl e, tr1)))"

text \<open>
  The body of the outer \<^verbatim>\<open>try\<close>: the loop, then \<^verbatim>\<open>response.json()\<close>,
  \<^verbatim>\<open>result_data.get("documents", [])\<close>, \<^verbatim>\<open>len(documents)\<close> and the success
  dictionary.
\<close>

definition search_body ::
  "module_env \<Rightarrow> endpoint \<Rightarrow> string \<Rightarrow> string \<Rightarrow> http_request \<Rightarrow> (exn + json) \<times> event list" where
  "search_body env ep query collection_name req =
     (case retry_loop env ep req (enumerate 1 retry_delays) [] of
        (Inl e, tr) \<Rightarrow> (Inl e, tr)
      | (Inr None, tr) \<Rightarrow>
          (Inl (UnboundLocalError
             ''cannot access local variable 'response' where it is not associated with a value''), tr)
      | (Inr (Some response), tr) \<Rightarrow>
          (case json_result response of
             Inl m \<Rightarrow> (Inl (JSONDecodeError m), tr)
           | Inr result_data \<Rightarrow>
               (case py_get result_data ''documents'' (JArray []) of
                  Inl e \<Rightarrow> (Inl e, tr)
                | Inr documents \<Rightarrow>
                    (case py_len documents of
                       Inl e \<Rightarrow> (Inl e, tr)
                     | Inr n \<Rightarrow>
                         (Inr (JObject
                            [(''success'', JBool True),
                             (''query'', JString query),
                             (''collection'', JString collection_name),
                             (''results'', documents),
                             (''count'', JInt (int n))]), tr)))))"

text \<open>
  What a tool function hands back: the dictionary it serialises with
  \<^verbatim>\<open>json.dumps\<close> (\<open>Inr\<close>), or the exception that leaves it (\<open>Inl\<close>), and the trace of
  the invocation.
\<close>

record outcome =
  returned :: "exn + json"
  trace :: "event list"

definition search_knowledge_base ::
  "module_env \<Rightarrow> endpoint \<Rightarrow> string \<Rightarrow> string \<Rightarrow> int \<Rightarrow> real \<Rightarrow> outcome" where
  "search_knowledge_base env ep query collection_name top_k score_threshold =
     (if blank query then
        \<lparr>returned = Inr (JObject
           [(''success'', JBool False),
            (''error'', JString ''Query cannot be empty''),
            (''query'', JString query)]),
         trace = []\<rparr>
      else
        (let top_k = py_min (py_max 1 top_k) 20;
             score_threshold = py_min (py_max 0 score_threshold) 1
         in case search_body env ep query collection_name
                   (search_request env query collection_name top_k score_threshold) of
              (Inr j, tr) \<Rightarrow> \<lparr>returned = Inr j, trace = tr\<rparr>
            | (Inl e, tr) \<Rightarrow>
                \<lparr>returned = Inr (JObject
                   [(''success'', JBool False),
                    (''error'', JString (py_str e)),
                    (''query'', JString query),
                    (''collection'', JString collection_name)]),
                 trace = tr\<rparr>))"

subsection \<open>get_document and list_collections\<close>

definition document_request :: "module_env \<Rightarrow> string \<Rightarrow> string \<Rightarrow> http_request" where
  "document_request env document_id collection_name =
     \<lparr>verb = GET,
      url = RAG_API_URL env @ ''/api/document/'' @ document_id,
      headers = [(''Authorization'', ''Bearer '' @ RAG_API_KEY env)],
      params = [(''collection'', collection_name)],
      json_body = None,
      connect_timeout = 10,
      read_timeout = 30\<rparr>"

definition document_body :: "endpoint \<Rightarrow> http_request \<Rightarrow> (exn + json) \<times> event list" where
  "document_body ep req =
     (case client_request ep req [] of (sent, tr) \<Rightarrow>
       (case (case sent of Inl e \<Rightarrow> Inl e | Inr response \<Rightarrow> raise_for_status response) of
          Inl e \<Rightarrow> (Inl e, tr)
        | Inr response \<Rightarrow>
            (case json_result response of
               Inl m \<Rightarrow> (Inl (JSONDecodeError m), tr)
             | Inr document \<Rightarrow>
                 (Inr (JObject [(''success'', JBool True), (''document'', document)]), tr))))"

definition get_document :: "module_env \<Rightarrow> endpoint \<Rightarrow> string \<Rightarrow> string \<Rightarrow> outcome" where
  "get_document env ep document_id collection_name =
     (if blank document_id then
        \<lparr>returned = Inr (JObject
           [(''success'', JBool False),
            (''error'', JString ''Document ID cannot be empty'')]),
         trace = []\<rparr>
      else
        (case document_body ep (document_request env document_id collection_name) of
           (Inr j, tr) \<Rightarrow> \<lparr>returned = Inr j, trace = tr\<rparr>
         | (Inl e, tr) \<Rightarrow>
             \<lparr>returned = Inr (JObject
                [(''success'', JBool False),
                 (''error'', JString (py_str e)),
                 (''document_id'', JString document_id)]),
              trace = tr\<rparr>))"

definition collections_request :: "module_env \<Rightarrow> http_request" where
  "collections_request env =
     \<lparr>verb = GET,
      url = RAG_API_URL env @ ''/api/collections'',
      headers = [(''Authorization'', ''Bearer '' @ RAG_API_KEY env)],
      params = [],
      json_body = None,
      connect_timeout = 10,
      read_timeout = 10\<rparr>"

definition collections_body :: "endpoint \<Rightarrow> http_request \<Rightarrow> (exn + json) \<times> event list" where
  "collections_body ep req =
     (case client_request ep req [] of (sent, tr) \<Rightarrow>
       (case (case sent of Inl e \<Rightarrow> Inl e | Inr response \<Rightarrow> raise_for_status response) of
          Inl e \<Rightarrow> (Inl e, tr)
        | Inr response \<Rightarrow>
            (case json_result response of
               Inl m \<Rightarrow> (Inl (JSONDecodeError m), tr)
             | Inr collections_data \<Rightarrow>
                 (case py_get collections_data ''collections'' (JArray []) of
                    Inl e \<Rightarrow> (Inl e, tr)
                  | Inr collections \<Rightarrow>
                      (case py_len collections of
                         Inl e \<Rightarrow> (Inl e, tr)
                       | Inr n \<Rightarrow>
                           (Inr (JObject
                              [(''success'', JBool True),
                               (''collections'', collections)]), tr))))))"

definition list_collections :: "module_env \<Rightarrow> endpoint \<Rightarrow> outcome" where
  "list_collections env ep =
     (case collections_body ep (collections_request env) of
        (Inr j, tr) \<Rightarrow> \<lparr>returned = Inr j, trace = tr\<rparr>
      | (Inl e, tr) \<Rightarrow>
          \<lparr>returned = Inr (JObject
             [(''success'', JBool False),
              (''error'', JString (py_str e))]),
           trace = tr\<rparr>)"

subsection \<open>Notions the properties are stated with\<close>

text \<open>
  The request \<^verbatim>\<open>search_knowledge_base\<close> sends for its arguments: the two numbers
  go through the clamping assignments first.
\<close>

abbreviation outbound :: "module_env \<Rightarrow> string \<Rightarrow> string \<Rightarrow> int \<Rightarrow> real \<Rightarrow> http_request" where
  "outbound env query collection_name top_k score_threshold \<equiv>
     search_request env query collection_name
       (py_min (py_max 1 top_k) 20) (py_min (py_max 0 score_threshold) 1)"

text \<open>
  The uniform result shape: a dictionary was returned (nothing was raised), its
  \<^verbatim>\<open>success\<close> is a boolean, and when that is false its \<^verbatim>\<open>error\<close> is a string.
\<close>

definition is_envelope :: "exn + json \<Rightarrow> bool" where
  "is_envelope r =
     (case r of
        Inl e \<Rightarrow> False
      | Inr j \<Rightarrow>
          (case j of
             JObject kvs \<Rightarrow>
               (case map_of kvs ''success'' of
                  Some (JBool b) \<Rightarrow>
                    (if b then True
                     else (case map_of kvs ''error'' of Some (JString m) \<Rightarrow> True | _ \<Rightarrow> False))
                | _ \<Rightarrow> False)
           | _ \<Rightarrow> False))"

text \<open>A field of the returned dictionary, \<open>None\<close> when it has no such key.\<close>

definition envelope_field :: "exn + json \<Rightarrow> string \<Rightarrow> json option" where
  "envelope_field r k =
     (case r of
        Inl e \<Rightarrow> None
      | Inr j \<Rightarrow> (case j of JObject kvs \<Rightarrow> map_of kvs k | _ \<Rightarrow> None))"

text \<open>
  A retryable condition of one attempt, as the two handlers of the loop test it: a
  timeout, or a response whose status is at least 500, 408 or 429.
\<close>

fun retryable_failure :: "http_outcome \<Rightarrow> bool" where
  "retryable_failure (TimedOut m) = True"
| "retryable_failure (Responded r) = (status_code r \<ge> 500 \<or> status_code r \<in> set [408, 429])"
| "retryable_failure (Failed m) = False"

text \<open>
  The text of the exception a single attempt ends with: \<open>None\<close> when the attempt is
  answered with a status from 200 to 299.
\<close>

fun failure_message :: "http_outcome \<Rightarrow> string option" where
  "failure_message (TimedOut m) = Some m"
| "failure_message (Failed m) = Some m"
| "failure_message (Responded r) =
     (if 200 \<le> status_code r \<and> status_code r \<le> 299 then None else Some (status_message r))"

subsection \<open>Example environments and endpoints\<close>

text \<open>
  The module loaded by \<^verbatim>\<open>import\<close>, and the module run as the program, both with the
  default configuration.
\<close>

definition imported_env :: module_env where
  "imported_env = \<lparr>RAG_API_URL = ''http://localhost:8000'', RAG_API_KEY = [], is_main = False\<rparr>"

definition program_env :: module_env where
  "program_env = \<lparr>RAG_API_URL = ''http://localhost:8000'', RAG_API_KEY = [], is_main = True\<rparr>"

definition response_of :: "int \<Rightarrow> string \<Rightarrow> string + json \<Rightarrow> http_response" where
  "response_of status reason body =
     \<lparr>status_code = status, reason_phrase = reason,
      response_url = ''http://localhost:8000/api'', location = None, json_result = body\<rparr>"

definition not_json :: "string + json" where
  "not_json = Inl ''Expecting value: line 1 column 1 (char 0)''"

definition doc1 :: json where
  "doc1 = JObject [(''id'', JString ''a''), (''content'', JString ''first'')]"

definition doc2 :: json where
  "doc2 = JObject [(''id'', JString ''b''), (''content'', JString ''second'')]"

text \<open>HTTP 503 on the first two attempts, then 200 with two documents.\<close>

definition unavailable_twice :: endpoint where
  "unavailable_twice n req =
     (if n < 2 then Responded (response_of 503 ''Service Unavailable'' not_json)
      else Responded (response_of 200 ''OK''
             (Inr (JObject [(''documents'', JArray [doc1, doc2])]))))"

definition always_unavailable :: endpoint where
  "always_unavailable n req = Responded (response_of 503 ''Service Unavailable'' not_json)"

definition always_not_found :: endpoint where
  "always_not_found n req = Responded (response_of 404 ''Not Found'' not_json)"

definition always_timing_out :: endpoint where
  "always_timing_out n req = TimedOut ''timed out''"

text \<open>HTTP 200 with the given parsed body on every attempt.\<close>

definition always_ok :: "json \<Rightarrow> endpoint" where
  "always_ok body n req = Responded (response_of 200 ''OK'' (Inr body))"

subsection \<open>Basic facts\<close>

lemma py_max_eq: "py_max a b = max a b"
  by (auto simp: py_max_def max_def)

lemma py_min_eq: "py_min a b = min a b"
  by (auto simp: py_min_def min_def)

lemma blank_iff: "blank s \<longleftrightarrow> (\<forall>c\<in>set s. py_isspace c)"
proof -
  have "py_strip s = [] \<longleftrightarrow> (\<forall>c\<in>set s. py_isspace c)"
  proof
    assume "py_strip s = []"
    then have "\<forall>c\<in>set (dropWhile py_isspace s). py_isspace c"
      by (simp add: py_strip_def dropWhile_eq_Nil_conv)
    then have "dropWhile py_isspace s = []"
      using hd_dropWhile [of py_isspace s] by (cases "dropWhile py_isspace s") auto
    then show "\<forall>c\<in>set s. py_isspace c"
      by (simp add: dropWhile_eq_Nil_conv)
  next
    assume "\<forall>c\<in>set s. py_isspace c"
    then show "py_strip s = []"
      by (auto simp: py_strip_def dest: set_dropWhileD)
  qed
  then show ?thesis
    by (auto simp: blank_def)
qed

lemma not_blank_example: "\<not> blank ''warranty policy''"
  by (simp add: blank_def py_strip_def py_isspace_def)

lemmas search_unfold =
  search_knowledge_base_def search_body_def retry_delays_def client_request_def
  attempts_def raise_for_status_def asyncio_sleep_def Let_def numeral_2_eq_2

lemmas example_defs =
  imported_env_def program_env_def response_of_def not_json_def
  unavailable_twice_def always_unavailable_def always_not_found_def
  always_timing_out_def always_ok_def

lemma str_int_503: "str_int 503 = ''503''"
  by (simp add: str_int_def str_nat.simps)

lemma status_message_503: "status_code r = 503 \<Longrightarrow> sublist ''503'' (status_message r)"
  unfolding sublist_def status_message_def squote_def
  by (rule exI [of _ "error_type 503 @ '' '' @ [CHR 0x27]"]) (simp add: str_int_503)

subsection \<open>The loop\<close>

text \<open>
  One turn of the loop either leaves it with the response (\<^verbatim>\<open>break\<close>), leaves it
  after a failed attempt (an exception re-raised, raised in a handler or not handled),
  or sleeps and goes on with the rest of the schedule.
\<close>

lemma requests_append: "requests (a @ b) = requests a @ requests b"
  by (induction a rule: requests.induct) auto

lemma retry_loop_Cons_cases:
  assumes "retry_loop env ep req ((a, d) # rest) tr = (res, tr')"
  shows "(\<exists>r. ep (attempts tr) req = Responded r \<and> failure_message (Responded r) = None
            \<and> res = Inr (Some r) \<and> tr' = tr @ [Sent req])
       \<or> (failure_message (ep (attempts tr) req) \<noteq> None \<and> tr' = tr @ [Sent req])
       \<or> (failure_message (ep (attempts tr) req) \<noteq> None
            \<and> retry_loop env ep req rest (tr @ [Sent req, Slept d]) = (res, tr'))"
  using assms
  by (auto simp: client_request_def raise_for_status_def asyncio_sleep_def
      split: http_outcome.splits if_splits sum.splits exn.splits prod.splits)

lemma retry_loop_requests:
  "retry_loop env ep req ads tr = (res, tr') \<Longrightarrow>
     set (requests tr') = set (requests tr) \<union> (if ads = [] then {} else {req})"
proof (induction ads arbitrary: tr res tr')
  case Nil
  then show ?case by simp
next
  case (Cons ad rest)
  obtain a d where ad: "ad = (a, d)" by (cases ad)
  from Cons.prems [unfolded ad] have
    "tr' = tr @ [Sent req] \<or> retry_loop env ep req rest (tr @ [Sent req, Slept d]) = (res, tr')"
    using retry_loop_Cons_cases by blast
  then show ?case
  proof
    assume "tr' = tr @ [Sent req]"
    then show ?thesis by (simp add: requests_append)
  next
    assume "retry_loop env ep req rest (tr @ [Sent req, Slept d]) = (res, tr')"
    from Cons.IH [OF this] show ?thesis
      by (auto simp: requests_append)
  qed
qed

lemma retry_loop_attempts_mono:
  "retry_loop env ep req ads tr = (res, tr') \<Longrightarrow> attempts tr \<le> attempts tr'"
proof (induction ads arbitrary: tr res tr')
  case Nil
  then show ?case by simp
next
  case (Cons ad rest)
  obtain a d where ad: "ad = (a, d)" by (cases ad)
  from Cons.prems [unfolded ad] have
    "tr' = tr @ [Sent req] \<or> retry_loop env ep req rest (tr @ [Sent req, Slept d]) = (res, tr')"
    using retry_loop_Cons_cases by blast
  then show ?case
  proof
    assume "tr' = tr @ [Sent req]"
    then show ?thesis by (simp add: attempts_def requests_append)
  next
    assume "retry_loop env ep req rest (tr @ [Sent req, Slept d]) = (res, tr')"
    from Cons.IH [OF this] show ?thesis
      by (simp add: attempts_def requests_append)
  qed
qed

lemma retry_loop_break:
  assumes "retry_loop env ep req ads tr = (res, tr')"
    and "attempts tr < attempts tr'"
    and "ep (attempts tr' - 1) req = Responded r"
    and "failure_message (Responded r) = None"
  shows "res = Inr (Some r)"
  using assms
proof (induction ads arbitrary: tr res tr')
  case Nil
  then show ?case by simp
next
  case (Cons ad rest)
  obtain a d where ad: "ad = (a, d)" by (cases ad)
  have one: "attempts (tr @ [Sent req]) - 1 = attempts tr"
    by (simp add: attempts_def requests_append)
  from Cons.prems(1) [unfolded ad] consider
      (break) r0 where "ep (attempts tr) req = Responded r0" "res = Inr (Some r0)"
        "tr' = tr @ [Sent req]"
    | (raised) "failure_message (ep (attempts tr) req) \<noteq> None" "tr' = tr @ [Sent req]"
    | (again) "failure_message (ep (attempts tr) req) \<noteq> None"
        "retry_loop env ep req rest (tr @ [Sent req, Slept d]) = (res, tr')"
    using retry_loop_Cons_cases by blast
  then show ?case
  proof cases
    case break
    with Cons.prems(3) one show ?thesis by simp
  next
    case raised
    with Cons.prems(3,4) one show ?thesis by simp
  next
    case again
    have le: "attempts (tr @ [Sent req, Slept d]) \<le> attempts tr'"
      using retry_loop_attempts_mono [OF again(2)] .
    have suc: "attempts (tr @ [Sent req, Slept d]) = attempts tr + 1"
      by (simp add: attempts_def requests_append)
    show ?thesis
    proof (cases "attempts (tr @ [Sent req, Slept d]) < attempts tr'")
      case True
      from Cons.IH [OF again(2) True Cons.prems(3) Cons.prems(4)] show ?thesis .
    next
      case False
      with le suc have "attempts tr' - 1 = attempts tr" by simp
      with Cons.prems(3,4) again(1) show ?thesis by simp
    qed
  qed
qed

lemma search_trace:
  "\<not> blank q \<Longrightarrow>
     trace (search_knowledge_base env ep q c k t) =
       snd (retry_loop env ep (outbound env q c k t) (enumerate 1 retry_delays) [])"
  by (simp add: search_knowledge_base_def search_body_def Let_def
      split: prod.splits sum.splits option.splits)

section \<open>Retrying the search\<close>

subsection \<open>The module run as the program\<close>

text \<open>
  When the module is run as the program, \<^verbatim>\<open>asyncio\<close> is bound and the loop works as
  its comments describe. HTTP 503 on the first two attempts and HTTP 200 with the
  documents \<open>d1\<close>, \<open>d2\<close> on the third: three requests, delays of 1s and 2s between
  them, and the success dictionary with both documents and count 2.
\<close>

lemma search_503_503_200_as_program:
  assumes "is_main env" and "\<not> blank q"
    and "ep 0 (outbound env q c k t) = Responded r1" and "status_code r1 = 503"
    and "ep 1 (outbound env q c k t) = Responded r2" and "status_code r2 = 503"
    and "ep 2 (outbound env q c k t) = Responded r3" and "status_code r3 = 200"
    and "json_result r3 = Inr (JObject [(''documents'', JArray [d1, d2])])"
  shows "search_knowledge_base env ep q c k t =
     \<lparr>returned = Inr (JObject
        [(''success'', JBool True),
         (''query'', JString q),
         (''collection'', JString c),
         (''results'', JArray [d1, d2]),
         (''count'', JInt 2)]),
      trace = [Sent (outbound env q c k t), Slept 1, Sent (outbound env q c k t), Slept 2,
               Sent (outbound env q c k t)]\<rparr>"
  using assms
  by (simp add: search_unfold dict_get_def)

text \<open>
  HTTP 503 on all three attempts, the module run as the program: three requests, delays
  of 1s and 2s, no fourth request, and a failure dictionary whose error text is the
  message of the third status error, which contains \<open>503\<close>.
\<close>

lemma search_always_503_as_program:
  assumes "is_main env" and "\<not> blank q"
    and "ep 0 (outbound env q c k t) = Responded r1" and "status_code r1 = 503"
    and "ep 1 (outbound env q c k t) = Responded r2" and "status_code r2 = 503"
    and "ep 2 (outbound env q c k t) = Responded r3" and "status_code r3 = 503"
  shows "search_knowledge_base env ep q c k t =
     \<lparr>returned = Inr (JObject
        [(''success'', JBool False),
         (''error'', JString (status_message r3)),
         (''query'', JString q),
         (''collection'', JString c)]),
      trace = [Sent (outbound env q c k t), Slept 1, Sent (outbound env q c k t), Slept 2,
               Sent (outbound env q c k t)]\<rparr>
     \<and> sublist ''503'' (status_message r3)"
  using assms
  by (simp add: search_unfold status_message_503)

subsection \<open>The module imported\<close>

text \<open>
  C2. For every non-empty query, HTTP 503 on the first two attempts and HTTP 200 with
  two documents on the third should give the success dictionary after three attempts and
  delays of 1s and 2s. With the module imported this fails: the handler of the first 503
  reaches \<^verbatim>\<open>asyncio.sleep\<close>, the name is unbound, and the outer handler returns a
  failure dictionary with the text of the \<^verbatim>\<open>NameError\<close> after a single request and no
  delay.
\<close>

theorem search_503_503_200_when_imported:
  "search_knowledge_base imported_env unavailable_twice ''warranty policy'' ''default'' 5 0.7 =
     \<lparr>returned = Inr (JObject
        [(''success'', JBool False),
         (''error'', JString ''name 'asyncio' is not defined''),
         (''query'', JString ''warranty policy''),
         (''collection'', JString ''default'')]),
      trace = [Sent (search_request imported_env ''warranty policy'' ''default'' 5 0.7)]\<rparr>"
  by (simp add: search_unfold example_defs not_blank_example py_min_def py_max_def)

text \<open>
  C3. For every non-empty query, HTTP 503 on all three attempts should give three
  attempts, two delays and a failure dictionary whose error text contains \<open>503\<close>. With
  the module imported this fails for the same reason: one attempt, no delay, and an
  error text that names \<^verbatim>\<open>asyncio\<close> and does not contain \<open>503\<close>.
\<close>

theorem search_always_503_when_imported:
  "returned (search_knowledge_base imported_env always_unavailable
       ''warranty policy'' ''default'' 5 0.7) =
     Inr (JObject
        [(''success'', JBool False),
         (''error'', JString ''name 'asyncio' is not defined''),
         (''query'', JString ''warranty policy''),
         (''collection'', JString ''default'')])
   \<and> attempts (trace (search_knowledge_base imported_env always_unavailable
         ''warranty policy'' ''default'' 5 0.7)) = 1
   \<and> delays (trace (search_knowledge_base imported_env always_unavailable
         ''warranty policy'' ''default'' 5 0.7)) = []
   \<and> \<not> sublist ''503'' ''name 'asyncio' is not defined''"
proof -
  have "\<not> sublist ''503'' ''name 'asyncio' is not defined''"
    by code_simp
  then show ?thesis
    by (simp add: search_unfold example_defs not_blank_example py_min_def py_max_def)
qed

text \<open>
  C4, as stated: for every non-empty query, a first attempt that fails with a retryable
  condition is followed by no further attempt and no delay. This is false when the
  module is run as the program: after a first 503 the search sleeps 1s and 2s, sends
  three requests and succeeds.
\<close>

theorem retry_happens_as_program:
  "is_main program_env
   \<and> \<not> blank ''warranty policy''
   \<and> retryable_failure
       (unavailable_twice 0 (outbound program_env ''warranty policy'' ''default'' 5 0.7))
   \<and> attempts (trace (search_knowledge_base program_env unavailable_twice
         ''warranty policy'' ''default'' 5 0.7)) = 3
   \<and> delays (trace (search_knowledge_base program_env unavailable_twice
         ''warranty policy'' ''default'' 5 0.7)) = [1, 2]
   \<and> envelope_field (returned (search_knowledge_base program_env unavailable_twice
         ''warranty policy'' ''default'' 5 0.7)) ''success'' = Some (JBool True)"
  by (simp add: search_unfold example_defs not_blank_example py_min_def py_max_def dict_get_def
      envelope_field_def)

text \<open>
  C4, amended: when the module was imported, so that \<^verbatim>\<open>asyncio\<close> is unbound, for
  every non-empty query a first attempt that fails with a retryable condition (a
  timeout, or a status that is at least 500, 408 or 429) is the only attempt: no delay is
  slept, and the failure dictionary carries the text of the \<^verbatim>\<open>NameError\<close>, not that of
  the transport failure.
\<close>

theorem no_retry_when_imported:
  assumes "\<not> is_main env" and "\<not> blank q"
    and "retryable_failure (ep 0 (outbound env q c k t))"
  shows "search_knowledge_base env ep q c k t =
     \<lparr>returned = Inr (JObject
        [(''success'', JBool False),
         (''error'', JString ''name 'asyncio' is not defined''),
         (''query'', JString q),
         (''collection'', JString c)]),
      trace = [Sent (outbound env q c k t)]\<rparr>
    \<and> attempts (trace (search_knowledge_base env ep q c k t)) = 1
    \<and> delays (trace (search_knowledge_base env ep q c k t)) = []"
proof -
  have result: "search_knowledge_base env ep q c k t =
     \<lparr>returned = Inr (JObject
        [(''success'', JBool False),
         (''error'', JString ''name 'asyncio' is not defined''),
         (''query'', JString q),
         (''collection'', JString c)]),
      trace = [Sent (outbound env q c k t)]\<rparr>"
  proof (cases "ep 0 (outbound env q c k t)")
    case (Responded r)
    with assms show ?thesis
      by (auto simp: search_unfold)
  next
    case (TimedOut m)
    with assms show ?thesis
      by (simp add: search_unfold)
  next
    case (Failed m)
    with assms show ?thesis
      by simp
  qed
  show ?thesis
    by (simp add: result attempts_def)
qed

theorem no_retry_when_imported_witness:
  "\<not> is_main imported_env
   \<and> \<not> blank ''warranty policy''
   \<and> retryable_failure
       (always_timing_out 0 (outbound imported_env ''warranty policy'' ''default'' 5 0.7))
   \<and> search_knowledge_base imported_env always_timing_out ''warranty policy'' ''default'' 5 0.7 =
     \<lparr>returned = Inr (JObject
        [(''success'', JBool False),
         (''error'', JString ''name 'asyncio' is not defined''),
         (''query'', JString ''warranty policy''),
         (''collection'', JString ''default'')]),
      trace = [Sent (outbound imported_env ''warranty policy'' ''default'' 5 0.7)]\<rparr>
   \<and> attempts (trace (search_knowledge_base imported_env always_timing_out
         ''warranty policy'' ''default'' 5 0.7)) = 1
   \<and> delays (trace (search_knowledge_base imported_env always_timing_out
         ''warranty policy'' ''default'' 5 0.7)) = []"
proof -
  have h1: "\<not> is_main imported_env"
    by (simp add: imported_env_def)
  have h2: "retryable_failure
       (always_timing_out 0 (outbound imported_env ''warranty policy'' ''default'' 5 0.7))"
    by (simp add: always_timing_out_def)
  show ?thesis
    using no_retry_when_imported [where env = imported_env and q = "''warranty policy''"
        and ep = always_timing_out and c = "''default''" and k = 5 and t = "0.7", OF h1 not_blank_example h2]
      h1 h2 not_blank_example
    by blast
qed

subsection \<open>Statuses that are not retried\<close>

text \<open>
  C5. For every non-empty query, if the first attempt is answered with HTTP 404, or any
  status from 400 to 499 other than 408 and 429, \<^verbatim>\<open>search_knowledge_base\<close> returns a
  failure dictionary at once: the trace holds the one request and nothing else, so
  there is exactly one attempt, no retry and no delay. The error text is the message of
  the status error. This holds whether or not the module was run as the program.
\<close>

theorem client_error_not_retried:
  assumes "\<not> blank q"
    and "ep 0 (outbound env q c k t) = Responded r"
    and "400 \<le> status_code r" and "status_code r \<le> 499"
    and "status_code r \<notin> {408, 429}"
  shows "search_knowledge_base env ep q c k t =
     \<lparr>returned = Inr (JObject
        [(''success'', JBool False),
         (''error'', JString (status_message r)),
         (''query'', JString q),
         (''collection'', JString c)]),
      trace = [Sent (outbound env q c k t)]\<rparr>
    \<and> attempts (trace (search_knowledge_base env ep q c k t)) = 1
    \<and> delays (trace (search_knowledge_base env ep q c k t)) = []"
proof -
  have result: "search_knowledge_base env ep q c k t =
     \<lparr>returned = Inr (JObject
        [(''success'', JBool False),
         (''error'', JString (status_message r)),
         (''query'', JString q),
         (''collection'', JString c)]),
      trace = [Sent (outbound env q c k t)]\<rparr>"
    using assms by (simp add: search_unfold)
  show ?thesis
    by (simp add: result attempts_def)
qed

theorem client_error_not_retried_witness:
  "\<not> blank ''warranty policy''
   \<and> always_not_found 0 (outbound program_env ''warranty policy'' ''default'' 5 0.7) =
        Responded (response_of 404 ''Not Found'' not_json)
   \<and> search_knowledge_base program_env always_not_found ''warranty policy'' ''default'' 5 0.7 =
     \<lparr>returned = Inr (JObject
        [(''success'', JBool False),
         (''error'', JString (status_message (response_of 404 ''Not Found'' not_json))),
         (''query'', JString ''warranty policy''),
         (''collection'', JString ''default'')]),
      trace = [Sent (outbound program_env ''warranty policy'' ''default'' 5 0.7)]\<rparr>
   \<and> attempts (trace (search_knowledge_base program_env always_not_found
         ''warranty policy'' ''default'' 5 0.7)) = 1
   \<and> delays (trace (search_knowledge_base program_env always_not_found
         ''warranty policy'' ''default'' 5 0.7)) = []"
proof -
  have h: "always_not_found 0 (outbound program_env ''warranty policy'' ''default'' 5 0.7) =
        Responded (response_of 404 ''Not Found'' not_json)"
    by (simp add: always_not_found_def)
  have s: "400 \<le> status_code (response_of 404 ''Not Found'' not_json)"
    "status_code (response_of 404 ''Not Found'' not_json) \<le> 499"
    "status_code (response_of 404 ''Not Found'' not_json) \<notin> {408, 429}"
    by (simp_all add: response_of_def)
  show ?thesis
    using client_error_not_retried [where q = "''warranty policy''" and ep = always_not_found
        and env = program_env and c = "''default''" and k = 5 and t = "0.7", OF not_blank_example h s]
      h not_blank_example
    by blast
qed

section \<open>Validation\<close>

text \<open>
  C6. For every query that is empty or consists only of whitespace,
  \<^verbatim>\<open>search_knowledge_base\<close> returns the failure dictionary with the error
  \<open>Query cannot be empty\<close> and the query as it was given, and sends nothing; for every
  such document id, \<^verbatim>\<open>get_document\<close> returns the failure dictionary with the error
  \<open>Document ID cannot be empty\<close> and sends nothing.
\<close>

theorem blank_input_rejected:
  assumes "\<forall>ch\<in>set s. py_isspace ch"
  shows "search_knowledge_base env ep s c k t =
      \<lparr>returned = Inr (JObject
         [(''success'', JBool False),
          (''error'', JString ''Query cannot be empty''),
          (''query'', JString s)]),
       trace = []\<rparr>
    \<and> get_document env ep s c =
      \<lparr>returned = Inr (JObject
         [(''success'', JBool False),
          (''error'', JString ''Document ID cannot be empty'')]),
       trace = []\<rparr>"
  using assms by (simp add: search_knowledge_base_def get_document_def blank_iff)

theorem blank_input_rejected_witness:
  "search_knowledge_base program_env always_unavailable ''   '' ''default'' 5 0.7 =
      \<lparr>returned = Inr (JObject
         [(''success'', JBool False),
          (''error'', JString ''Query cannot be empty''),
          (''query'', JString ''   '')]),
       trace = []\<rparr>
    \<and> get_document program_env always_unavailable ''   '' ''default'' =
      \<lparr>returned = Inr (JObject
         [(''success'', JBool False),
          (''error'', JString ''Document ID cannot be empty'')]),
       trace = []\<rparr>
    \<and> search_knowledge_base program_env always_unavailable [] ''default'' 5 0.7 =
      \<lparr>returned = Inr (JObject
         [(''success'', JBool False),
          (''error'', JString ''Query cannot be empty''),
          (''query'', JString [])]),
       trace = []\<rparr>"
proof -
  have h: "\<forall>ch\<in>set ''   ''. py_isspace ch"
    by (simp add: py_isspace_def)
  have e: "\<forall>ch\<in>set ([] :: string). py_isspace ch"
    by simp
  show ?thesis
    using blank_input_rejected [OF h, of program_env always_unavailable "''default''" 5 "0.7"]
      blank_input_rejected [OF e, of program_env always_unavailable "''default''" 5 "0.7"]
    by blast
qed

section \<open>Clamping\<close>

text \<open>
  C7. For every integer \<open>top_k\<close> and every real \<open>score_threshold\<close> passed with a
  non-empty query, at least one request is sent and the body of every request sent
  carries exactly \<open>min (max 1 top_k) 20\<close> and \<open>min (max 0 score_threshold) 1\<close>.
  Out-of-range values are coerced, not rejected: the call behaves, result and trace, as
  the call with the clamped values does.
\<close>

theorem search_sends_clamped:
  assumes "\<not> blank q"
  shows "json_body ` set (requests (trace (search_knowledge_base env ep q c k t))) =
           {Some (JObject
              [(''query'', JString q),
               (''collection_name'', JString c),
               (''top_k'', JInt (min (max 1 k) 20)),
               (''score_threshold'', JFloat (min (max 0 t) 1))])}
       \<and> search_knowledge_base env ep q c k t =
           search_knowledge_base env ep q c (min (max 1 k) 20) (min (max 0 t) 1)"
proof -
  obtain res tr where loop:
    "retry_loop env ep (outbound env q c k t) (enumerate 1 retry_delays) [] = (res, tr)"
    by (cases "retry_loop env ep (outbound env q c k t) (enumerate 1 retry_delays) []")
  have "set (requests tr) = {outbound env q c k t}"
    using retry_loop_requests [OF loop] by (simp add: retry_delays_def)
  then have "set (requests (trace (search_knowledge_base env ep q c k t))) = {outbound env q c k t}"
    using assms loop by (simp add: search_trace)
  then have first: "json_body ` set (requests (trace (search_knowledge_base env ep q c k t))) =
           {Some (JObject
              [(''query'', JString q),
               (''collection_name'', JString c),
               (''top_k'', JInt (min (max 1 k) 20)),
               (''score_threshold'', JFloat (min (max 0 t) 1))])}"
    by (simp add: search_request_def py_min_eq py_max_eq)
  have second: "search_knowledge_base env ep q c k t =
           search_knowledge_base env ep q c (min (max 1 k) 20) (min (max 0 t) 1)"
    by (simp add: search_knowledge_base_def py_min_eq py_max_eq)
  from first second show ?thesis ..
qed

theorem search_sends_clamped_witness:
  "\<not> blank ''warranty policy''
   \<and> json_body ` set (requests (trace
        (search_knowledge_base program_env always_unavailable ''warranty policy'' ''default'' 50 (-3)))) =
           {Some (JObject
              [(''query'', JString ''warranty policy''),
               (''collection_name'', JString ''default''),
               (''top_k'', JInt 20),
               (''score_threshold'', JFloat 0)])}
   \<and> search_knowledge_base program_env always_unavailable ''warranty policy'' ''default'' 50 (-3) =
       search_knowledge_base program_env always_unavailable ''warranty policy'' ''default'' 20 0"
proof -
  have e1: "min (max 1 (50::int)) 20 = 20" and e2: "min (max 0 (- 3::real)) 1 = 0"
    by simp_all
  note w = search_sends_clamped [where q = "''warranty policy''" and ep = always_unavailable
      and env = program_env and c = "''default''" and k = 50 and t = "- 3",
      OF not_blank_example, unfolded e1 e2]
  show ?thesis
    using w not_blank_example by blast
qed

section \<open>Result dictionaries\<close>

subsection \<open>Success of the search\<close>

text \<open>
  C8, as stated: every response with a status from 200 to 299 whose body parses as JSON
  gives the success dictionary. This is false for a body that is not an object, or
  whose \<^verbatim>\<open>documents\<close> has no length: for \<^verbatim>\<open>{"documents": null}\<close> the expression
  \<^verbatim>\<open>len(documents)\<close> raises \<^verbatim>\<open>TypeError\<close> and the outer handler returns a failure
  dictionary.
\<close>

theorem search_documents_null_fails:
  "\<not> blank ''warranty policy''
   \<and> always_ok (JObject [(''documents'', JNull)]) 0
        (outbound program_env ''warranty policy'' ''default'' 5 0.7) =
       Responded (response_of 200 ''OK'' (Inr (JObject [(''documents'', JNull)])))
   \<and> search_knowledge_base program_env (always_ok (JObject [(''documents'', JNull)]))
       ''warranty policy'' ''default'' 5 0.7 =
     \<lparr>returned = Inr (JObject
        [(''success'', JBool False),
         (''error'', JString ''object of type 'NoneType' has no len()''),
         (''query'', JString ''warranty policy''),
         (''collection'', JString ''default'')]),
      trace = [Sent (outbound program_env ''warranty policy'' ''default'' 5 0.7)]\<rparr>"
  by (simp add: search_unfold example_defs not_blank_example dict_get_def squote_def)

text \<open>
  C8, amended: for every non-empty query, when the last request of the invocation is
  answered with a status from 200 to 299 and a body that parses to a JSON object in
  which \<^verbatim>\<open>documents\<close> is absent or has a length (an array, a string or an object),
  \<^verbatim>\<open>search_knowledge_base\<close> returns the dictionary with \<^verbatim>\<open>success\<close> true, the query,
  the collection name under \<^verbatim>\<open>collection\<close>, the body's \<^verbatim>\<open>documents\<close> (the empty list
  when absent) under \<^verbatim>\<open>results\<close>, and their length under \<^verbatim>\<open>count\<close>.
\<close>

theorem search_success_envelope:
  assumes "\<not> blank q"
    and "ep (attempts (trace (search_knowledge_base env ep q c k t)) - 1) (outbound env q c k t)
           = Responded r"
    and "200 \<le> status_code r" and "status_code r \<le> 299"
    and "json_result r = Inr (JObject kvs)"
    and "py_len (dict_get kvs ''documents'' (JArray [])) = Inr n"
  shows "returned (search_knowledge_base env ep q c k t) =
     Inr (JObject
        [(''success'', JBool True),
         (''query'', JString q),
         (''collection'', JString c),
         (''results'', dict_get kvs ''documents'' (JArray [])),
         (''count'', JInt (int n))])"
proof -
  obtain res tr where loop:
    "retry_loop env ep (outbound env q c k t) (enumerate 1 retry_delays) [] = (res, tr)"
    by (cases "retry_loop env ep (outbound env q c k t) (enumerate 1 retry_delays) []")
  have tr: "trace (search_knowledge_base env ep q c k t) = tr"
    using assms(1) loop by (simp add: search_trace)
  have "set (requests tr) = {outbound env q c k t}"
    using retry_loop_requests [OF loop] by (simp add: retry_delays_def)
  then have "requests tr \<noteq> []" by auto
  then have pos: "attempts [] < attempts tr"
    by (simp add: attempts_def)
  have ok: "failure_message (Responded r) = None"
    using assms(3,4) by simp
  have "res = Inr (Some r)"
    using retry_loop_break [OF loop pos _ ok] assms(2) tr by simp
  with loop assms(1,5,6) show ?thesis
    by (simp add: search_knowledge_base_def search_body_def Let_def)
qed

lemma third_attempt_trace:
  "attempts (trace (search_knowledge_base program_env unavailable_twice
      ''warranty policy'' ''default'' 5 0.7)) = 3"
  by (simp add: search_unfold example_defs not_blank_example dict_get_def)

theorem search_success_envelope_witness:
  "\<not> blank ''warranty policy''
   \<and> unavailable_twice 2 (outbound program_env ''warranty policy'' ''default'' 5 0.7) =
       Responded (response_of 200 ''OK'' (Inr (JObject [(''documents'', JArray [doc1, doc2])])))
   \<and> returned (search_knowledge_base program_env unavailable_twice
        ''warranty policy'' ''default'' 5 0.7) =
     Inr (JObject
        [(''success'', JBool True),
         (''query'', JString ''warranty policy''),
         (''collection'', JString ''default''),
         (''results'', JArray [doc1, doc2]),
         (''count'', JInt 2)])"
proof -
  let ?r = "response_of 200 ''OK'' (Inr (JObject [(''documents'', JArray [doc1, doc2])]))"
  have h2: "unavailable_twice
      (attempts (trace (search_knowledge_base program_env unavailable_twice
          ''warranty policy'' ''default'' 5 0.7)) - 1)
      (outbound program_env ''warranty policy'' ''default'' 5 0.7) = Responded ?r"
    by (simp add: third_attempt_trace unavailable_twice_def)
  have h3: "200 \<le> status_code ?r" and h4: "status_code ?r \<le> 299"
    and h5: "json_result ?r = Inr (JObject [(''documents'', JArray [doc1, doc2])])"
    by (simp_all add: response_of_def)
  have h6: "py_len (dict_get [(''documents'', JArray [doc1, doc2])] ''documents'' (JArray []))
      = Inr 2"
    by (simp add: dict_get_def)
  have u: "unavailable_twice 2 (outbound program_env ''warranty policy'' ''default'' 5 0.7) =
       Responded ?r"
    by (simp add: unavailable_twice_def)
  have d: "dict_get [(''documents'', JArray [doc1, doc2])] ''documents'' (JArray [])
      = JArray [doc1, doc2]"
    by (simp add: dict_get_def)
  show ?thesis
    using search_success_envelope [where q = "''warranty policy''" and ep = unavailable_twice
        and env = program_env and c = "''default''" and k = 5 and t = "0.7",
        OF not_blank_example h2 h3 h4 h5 h6]
      not_blank_example u d
    by simp
qed

subsection \<open>Failure of get_document\<close>

text \<open>
  C9, as stated: the failure dictionary of \<^verbatim>\<open>get_document\<close> contains
  \<^verbatim>\<open>collection_name\<close>. It does not: after HTTP 404 it has the three keys
  \<^verbatim>\<open>success\<close>, \<^verbatim>\<open>error\<close> and \<^verbatim>\<open>document_id\<close>.
\<close>

theorem get_document_failure_lacks_collection_name:
  "\<not> blank ''doc-1''
   \<and> failure_message (always_not_found 0 (document_request program_env ''doc-1'' ''default'')) =
       Some (status_message (response_of 404 ''Not Found'' not_json))
   \<and> get_document program_env always_not_found ''doc-1'' ''default'' =
     \<lparr>returned = Inr (JObject
        [(''success'', JBool False),
         (''error'', JString (status_message (response_of 404 ''Not Found'' not_json))),
         (''document_id'', JString ''doc-1'')]),
      trace = [Sent (document_request program_env ''doc-1'' ''default'')]\<rparr>
   \<and> envelope_field (returned (get_document program_env always_not_found ''doc-1'' ''default''))
       ''collection_name'' = None"
  by (simp add: get_document_def document_body_def client_request_def attempts_def
      raise_for_status_def example_defs envelope_field_def blank_def py_strip_def py_isspace_def)

text \<open>
  C9, amended: for every non-empty document id, whenever the single attempt fails (a
  timeout, another transport error, or a status outside 200 to 299), the dictionary
  returned is exactly \<^verbatim>\<open>success\<close> false, \<^verbatim>\<open>error\<close> the text of the failure, and
  \<^verbatim>\<open>document_id\<close>; one request was sent.
\<close>

theorem get_document_failure_envelope:
  assumes "\<not> blank d"
    and "failure_message (ep 0 (document_request env d c)) = Some msg"
  shows "get_document env ep d c =
     \<lparr>returned = Inr (JObject
        [(''success'', JBool False),
         (''error'', JString msg),
         (''document_id'', JString d)]),
      trace = [Sent (document_request env d c)]\<rparr>"
  using assms
  by (cases "ep 0 (document_request env d c)")
    (auto simp: get_document_def document_body_def client_request_def attempts_def
      raise_for_status_def split: if_splits)

theorem get_document_failure_envelope_witness:
  "\<not> blank ''doc-1''
   \<and> failure_message (always_timing_out 0 (document_request program_env ''doc-1'' ''default'')) =
       Some ''timed out''
   \<and> get_document program_env always_timing_out ''doc-1'' ''default'' =
     \<lparr>returned = Inr (JObject
        [(''success'', JBool False),
         (''error'', JString ''timed out''),
         (''document_id'', JString ''doc-1'')]),
      trace = [Sent (document_request program_env ''doc-1'' ''default'')]\<rparr>"
proof -
  have h1: "\<not> blank ''doc-1''"
    by (simp add: blank_def py_strip_def py_isspace_def)
  have h2: "failure_message (always_timing_out 0 (document_request program_env ''doc-1'' ''default'')) =
       Some ''timed out''"
    by (simp add: always_timing_out_def)
  show ?thesis
    using get_document_failure_envelope [where d = "''doc-1''" and ep = always_timing_out
        and env = program_env and c = "''default''", OF h1 h2]
      h1 h2
    by blast
qed

subsection \<open>Success of list_collections\<close>

text \<open>
  C10, as stated: every response with a status from 200 to 299 whose body parses as
  JSON gives the success dictionary. This is false for a body that is not an object:
  for the body \<^verbatim>\<open>[]\<close> the call \<^verbatim>\<open>collections_data.get\<close> raises
  \<^verbatim>\<open>AttributeError\<close> and the handler returns a failure dictionary.
\<close>

theorem list_collections_array_body_fails:
  "always_ok (JArray []) 0 (collections_request program_env) =
     Responded (response_of 200 ''OK'' (Inr (JArray [])))
   \<and> list_collections program_env (always_ok (JArray [])) =
     \<lparr>returned = Inr (JObject
        [(''success'', JBool False),
         (''error'', JString (squote ''list'' @ '' object has no attribute '' @ squote ''get''))]),
      trace = [Sent (collections_request program_env)]\<rparr>"
  by (simp add: list_collections_def collections_body_def client_request_def attempts_def
      raise_for_status_def example_defs)

text \<open>
  C10, amended: when the request is answered with a status from 200 to 299 and a body
  that parses to a JSON object in which \<^verbatim>\<open>collections\<close> is absent or has a length (an
  array, a string or an object), \<^verbatim>\<open>list_collections\<close> returns the dictionary with
  \<^verbatim>\<open>success\<close> true and the body's \<^verbatim>\<open>collections\<close> (the empty list when absent); in
  particular the body \<^verbatim>\<open>{"collections": []}\<close> gives \<^verbatim>\<open>success\<close> true with the
  empty list.
\<close>

theorem list_collections_success_envelope:
  assumes "ep 0 (collections_request env) = Responded r"
    and "200 \<le> status_code r" and "status_code r \<le> 299"
    and "json_result r = Inr (JObject kvs)"
    and "py_len (dict_get kvs ''collections'' (JArray [])) = Inr n"
  shows "list_collections env ep =
     \<lparr>returned = Inr (JObject
        [(''success'', JBool True),
         (''collections'', dict_get kvs ''collections'' (JArray []))]),
      trace = [Sent (collections_request env)]\<rparr>"
  using assms
  by (simp add: list_collections_def collections_body_def client_request_def attempts_def
      raise_for_status_def)

theorem list_collections_success_envelope_witness:
  "always_ok (JObject [(''collections'', JArray [])]) 0 (collections_request program_env) =
     Responded (response_of 200 ''OK'' (Inr (JObject [(''collections'', JArray [])])))
   \<and> list_collections program_env (always_ok (JObject [(''collections'', JArray [])])) =
     \<lparr>returned = Inr (JObject
        [(''success'', JBool True),
         (''collections'', JArray [])]),
      trace = [Sent (collections_request program_env)]\<rparr>"
proof -
  let ?r = "response_of 200 ''OK'' (Inr (JObject [(''collections'', JArray [])]))"
  have h1: "always_ok (JObject [(''collections'', JArray [])]) 0 (collections_request program_env) =
     Responded ?r"
    by (simp add: always_ok_def)
  have h2: "200 \<le> status_code ?r" and h3: "status_code ?r \<le> 299"
    and h4: "json_result ?r = Inr (JObject [(''collections'', JArray [])])"
    by (simp_all add: response_of_def)
  have d: "dict_get [(''collections'', JArray [])] ''collections'' (JArray []) = JArray []"
    by (simp add: dict_get_def)
  have h5: "py_len (dict_get [(''collections'', JArray [])] ''collections'' (JArray [])) = Inr 0"
    by (simp add: d)
  show ?thesis
    using list_collections_success_envelope [where ep = "always_ok (JObject [(''collections'', JArray [])])"
        and env = program_env, OF h1 h2 h3 h4 h5]
      h1 d
    by simp
qed

subsection \<open>Every outcome is a dictionary\<close>

lemma search_body_success:
  "search_body env ep q c req = (Inr j, tr) \<Longrightarrow>
     \<exists>docs n. j = JObject [(''success'', JBool True), (''query'', JString q),
        (''collection'', JString c), (''results'', docs), (''count'', JInt n)]"
  by (auto simp: search_body_def split: prod.splits sum.splits option.splits)

lemma document_body_success:
  "document_body ep req = (Inr j, tr) \<Longrightarrow>
     \<exists>d. j = JObject [(''success'', JBool True), (''document'', d)]"
  by (auto simp: document_body_def split: prod.splits sum.splits)

lemma collections_body_success:
  "collections_body ep req = (Inr j, tr) \<Longrightarrow>
     \<exists>cs. j = JObject [(''success'', JBool True), (''collections'', cs)]"
  by (auto simp: collections_body_def split: prod.splits sum.splits)

lemma search_is_envelope: "is_envelope (returned (search_knowledge_base env ep q c k t))"
  by (auto simp: search_knowledge_base_def is_envelope_def Let_def
      split: prod.splits sum.splits dest!: search_body_success)

lemma get_document_is_envelope: "is_envelope (returned (get_document env ep d c))"
  by (auto simp: get_document_def is_envelope_def
      split: prod.splits sum.splits dest!: document_body_success)

lemma list_collections_is_envelope: "is_envelope (returned (list_collections env ep))"
  by (auto simp: list_collections_def is_envelope_def
      split: prod.splits sum.splits dest!: collections_body_success)

text \<open>
  C1. For every input and every behaviour of the endpoint (any status, a timeout,
  another transport error, a body that does not parse or parses to anything), each of
  the three functions returns a dictionary and raises nothing; the dictionary has a
  boolean \<^verbatim>\<open>success\<close> and, when that is false, a string \<^verbatim>\<open>error\<close>.
\<close>

theorem every_operation_returns_envelope:
  "is_envelope (returned (search_knowledge_base env ep query collection_name top_k score_threshold))
   \<and> is_envelope (returned (get_document env ep document_id collection_name))
   \<and> is_envelope (returned (list_collections env ep))"
  by (simp add: search_is_envelope get_document_is_envelope list_collections_is_envelope)

end
